theory Spec2Isabelle
  imports Main
begin

section \<open>The restaurant ordering application (src/main.py)\<close>

text \<open>
  The program is three Flask handlers over one SQLAlchemy model, \<open>Order\<close>, kept in a SQLite
  file (\<open>"sqlite:///" + db_path\<close>). The six calls the handlers make into the session
  (\<open>add\<close>, \<open>delete\<close>, \<open>commit\<close>, \<open>rollback\<close>, \<open>query.all\<close>, \<open>query.get_or_404\<close>)
  are written out first.

  Every integer of the program is either a path parameter matched by the \<open>int\<close> converter
  (digits only, of any length) or a rowid handed out by the storage engine, so integers are
  natural numbers. The storage holds integers up to \<open>2^63 - 1\<close>; a larger one is refused
  when it is bound to a statement.

  The handlers are written against \<open>db.session\<close>: each is embedded as a function on the
  session (\<open>place_order_body\<close>, \<open>delete_order_body\<close>), and the request around it starts a
  session on the committed table and keeps the committed table when the session is removed
  (\<open>place_order\<close>, \<open>delete_order\<close>).
\<close>

subsection \<open>Python values, responses, exceptions\<close>

datatype pyval =
    PyNone
  | PyInt nat
  | PyStr string
  | PyList "pyval list"
  | PyDict "(string \<times> pyval) list"

text \<open>
  The exceptions the session calls can raise: a constraint of the table violated, a failure
  of the storage (named by the condition the engine reports), and the driver's refusal of
  an integer that does not fit 64 bits.
\<close>

datatype violation = NotNull string | Unique string

datatype exn = IntegrityError violation | OperationalError string | OverflowError

text \<open>
  What a request is answered with: a rendered template with its keyword arguments; the
  f-string \<open>f"<prefix>{e}"\<close> with a status, kept as the prefix and the exception whose
  \<open>str\<close> is spliced in (the text of \<open>str(e)\<close> is the library's and is not spelled out);
  a redirect; the abort raised by \<open>get_or_404\<close>; or the server error Flask
  answers when an exception leaves the handler.
\<close>

datatype response =
    Template string "(string \<times> pyval) list"
  | ErrorBody string exn nat
  | Redirect string
  | Abort nat
  | Unhandled exn

fun status_code :: "response \<Rightarrow> nat" where
  "status_code (Template name kwargs) = 200"
| "status_code (ErrorBody prefix e status) = status"
| "status_code (Redirect location) = 302"
| "status_code (Abort status) = status"
| "status_code (Unhandled e) = 500"

text \<open>
  Whether the storage breaks while the transaction is written: not at all, when a write
  statement runs (nothing has been written yet), or at COMMIT (the statements have run).
\<close>

datatype fault = NoFault | WriteFault exn | CommitFault exn

subsection \<open>The model class\<close>

text \<open>
  \<open>id\<close> is \<open>None\<close> on an object that has not been flushed; \<open>customer_name\<close> and
  \<open>orders\<close> are whatever \<open>request.form.get\<close> returned, so they can be \<open>None\<close> on an
  object (the columns themselves are \<open>nullable=False\<close>).
\<close>

record Order =
  order_id :: "nat option"
  customer_name :: "string option"
  table_number :: nat
  orders :: "string option"

definition opt_int :: "nat option \<Rightarrow> pyval" where
  "opt_int v = (case v of None \<Rightarrow> PyNone | Some n \<Rightarrow> PyInt n)"

definition opt_str :: "string option \<Rightarrow> pyval" where
  "opt_str v = (case v of None \<Rightarrow> PyNone | Some s \<Rightarrow> PyStr s)"

text \<open>\<open>Order.__iter__\<close>: the pairs it yields, in order.\<close>

definition order_iter :: "Order \<Rightarrow> (string \<times> pyval) list" where
  "order_iter self =
     [(''id'', opt_int (order_id self)),
      (''customer_name'', opt_str (customer_name self)),
      (''table_number'', PyInt (table_number self)),
      (''orders'', opt_str (orders self))]"

text \<open>
  \<open>dict(pairs)\<close>: a dict keeps its keys in insertion order, and storing under a key that is
  already there replaces the value in place.
\<close>

fun dict_set :: "(string \<times> pyval) list \<Rightarrow> string \<Rightarrow> pyval \<Rightarrow> (string \<times> pyval) list" where
  "dict_set [] k v = [(k, v)]"
| "dict_set ((k', v') # d) k v = (if k' = k then (k, v) # d else (k', v') # dict_set d k v)"

definition dict :: "(string \<times> pyval) list \<Rightarrow> (string \<times> pyval) list" where
  "dict pairs = foldl (\<lambda>d (k, v). dict_set d k v) [] pairs"

subsection \<open>The storage engine and the session\<close>

text \<open>
  The \<open>id\<close> column is an integer primary key of a SQLite table created without
  AUTOINCREMENT, and the INSERT passes no id: the engine gives the new row one more than
  the largest rowid in the table, and 1 in an empty table. (Past the largest rowid
  \<open>2^63 - 1\<close> the engine picks unused rowids at random; a table filled by this program
  gets there only after that many inserts, and that regime is not modelled.)
\<close>

definition row_ids :: "Order list \<Rightarrow> nat list" where
  "row_ids rows = List.map_filter order_id rows"

definition next_rowid :: "Order list \<Rightarrow> nat" where
  "next_rowid rows = (if row_ids rows = [] then 1 else Max (set (row_ids rows)) + 1)"

text \<open>The largest integer the storage holds, and the driver's check when one is bound.\<close>

definition sqlite_max :: nat where
  "sqlite_max = 2 ^ 63 - 1"

definition too_large :: "nat \<Rightarrow> bool" where
  "too_large n = (sqlite_max < n)"

text \<open>
  One INSERT: the parameters are bound first, and an integer that does not fit is refused
  there; then the statement runs, the NOT NULL columns are checked in the order they are
  declared, and the row is written under a new rowid (or under the id the object carries,
  which has to be unused).
\<close>

definition sql_insert :: "Order \<Rightarrow> Order list \<Rightarrow> exn + Order list" where
  "sql_insert obj rows =
     (if too_large (table_number obj) \<or> (case order_id obj of None \<Rightarrow> False | Some i \<Rightarrow> too_large i)
      then Inl OverflowError
      else if customer_name obj = None then Inl (IntegrityError (NotNull ''customer_name''))
      else if orders obj = None then Inl (IntegrityError (NotNull ''orders''))
      else case order_id obj of
             None \<Rightarrow> Inr (rows @ [obj\<lparr>order_id := Some (next_rowid rows)\<rparr>])
           | Some i \<Rightarrow>
               if i \<in> set (row_ids rows)
               then Inl (IntegrityError (Unique ''id''))
               else Inr (rows @ [obj]))"

text \<open>
  One DELETE, by primary key (the id bound is the id of a row that was just read, so it
  fits).
\<close>

definition sql_delete :: "Order \<Rightarrow> Order list \<Rightarrow> Order list" where
  "sql_delete obj rows = filter (\<lambda>r. order_id r \<noteq> order_id obj) rows"

fun insert_all :: "Order list \<Rightarrow> Order list \<Rightarrow> exn option \<times> Order list" where
  "insert_all [] rows = (None, rows)"
| "insert_all (obj # objs) rows =
     (case sql_insert obj rows of
        Inl e \<Rightarrow> (Some e, rows)
      | Inr rows' \<Rightarrow> insert_all objs rows')"

fun delete_all :: "Order list \<Rightarrow> Order list \<Rightarrow> Order list" where
  "delete_all [] rows = rows"
| "delete_all (obj # objs) rows = delete_all objs (sql_delete obj rows)"

text \<open>
  \<open>db.session\<close>: the committed table, the table as the open transaction sees it, and the
  objects added and deleted since the last flush. Flask-SQLAlchemy scopes the session to
  the request, so a handler starts on a session with nothing pending.
\<close>

record session =
  table :: "Order list"
  txn :: "Order list"
  pending_new :: "Order list"
  pending_deleted :: "Order list"

definition session_begin :: "Order list \<Rightarrow> session" where
  "session_begin rows = \<lparr>table = rows, txn = rows, pending_new = [], pending_deleted = []\<rparr>"

definition session_add :: "Order \<Rightarrow> session \<Rightarrow> session" where
  "session_add obj s = s\<lparr>pending_new := pending_new s @ [obj]\<rparr>"

definition session_delete :: "Order \<Rightarrow> session \<Rightarrow> session" where
  "session_delete obj s = s\<lparr>pending_deleted := pending_deleted s @ [obj]\<rparr>"

text \<open>
  The flush inside \<open>commit\<close>: inserts, then deletes, inside the transaction. The first
  element of the result is the exception raised, if any.
\<close>

definition session_flush :: "fault \<Rightarrow> session \<Rightarrow> exn option \<times> session" where
  "session_flush f s =
     (if pending_new s = [] \<and> pending_deleted s = [] then (None, s)
      else case f of
             WriteFault e \<Rightarrow> (Some e, s)
           | _ \<Rightarrow>
               (case insert_all (pending_new s) (txn s) of
                  (Some e, rows) \<Rightarrow> (Some e, s\<lparr>txn := rows\<rparr>)
                | (None, rows) \<Rightarrow>
                    (None, s\<lparr>txn := delete_all (pending_deleted s) rows,
                              pending_new := [], pending_deleted := []\<rparr>)))"

definition session_commit :: "fault \<Rightarrow> session \<Rightarrow> exn option \<times> session" where
  "session_commit f s =
     (case session_flush f s of
        (Some e, s') \<Rightarrow> (Some e, s')
      | (None, s') \<Rightarrow>
          (case f of
             CommitFault e \<Rightarrow> (Some e, s')
           | _ \<Rightarrow> (None, s'\<lparr>table := txn s'\<rparr>)))"

definition session_rollback :: "session \<Rightarrow> session" where
  "session_rollback s =
     s\<lparr>txn := table s, pending_new := [], pending_deleted := []\<rparr>"

text \<open>
  \<open>Order.query.all()\<close> and \<open>Order.query.get(id)\<close> read inside the transaction. The second
  binds the id to its SELECT, which the driver refuses when the id does not fit.
\<close>

definition query_all :: "session \<Rightarrow> Order list" where
  "query_all s = txn s"

definition query_get :: "session \<Rightarrow> nat \<Rightarrow> exn + Order option" where
  "query_get s i =
     (if too_large i then Inl OverflowError
      else Inr (find (\<lambda>r. order_id r = Some i) (txn s)))"

subsection \<open>The handlers\<close>

text \<open>\<open>request.form.get(key)\<close>: the first value sent under the key, or \<open>None\<close>.\<close>

definition form_get :: "(string \<times> string) list \<Rightarrow> string \<Rightarrow> string option" where
  "form_get form key = map_of form key"

text \<open>\<open>url_for\<close> on the routes of this file.\<close>

definition url_for :: "string \<Rightarrow> string" where
  "url_for endpoint = (if endpoint = ''kitchen'' then ''/kitchen/'' else [])"

definition main_menu :: "nat \<Rightarrow> response" where
  "main_menu table_no = Template ''main_menu.html'' [(''table_number'', PyInt table_no)]"

text \<open>The object built at the top of \<open>place_order\<close>.\<close>

definition order_of_request :: "nat \<Rightarrow> (string \<times> string) list \<Rightarrow> Order" where
  "order_of_request table_no form =
     \<lparr>order_id = None,
      customer_name = form_get form ''customer_name'',
      table_number = table_no,
      orders = form_get form ''order_summary''\<rparr>"

text \<open>The body of \<open>place_order\<close>, on \<open>db.session\<close>.\<close>

definition place_order_body ::
  "fault \<Rightarrow> nat \<Rightarrow> (string \<times> string) list \<Rightarrow> session \<Rightarrow> response \<times> session" where
  "place_order_body f table_no form s0 =
     (let order = order_of_request table_no form
      in case session_commit f (session_add order s0) of
           (Some e, s) \<Rightarrow> (ErrorBody ''Error placing order: '' e 500, session_rollback s)
         | (None, s) \<Rightarrow>
             (Template ''order_summary.html''
                [(''customer_name'', opt_str (customer_name order)),
                 (''table_number'', PyInt table_no),
                 (''order_summary'', opt_str (orders order))],
              s))"

text \<open>The request: a session on the committed table, the body, the committed table after.\<close>

definition place_order ::
  "fault \<Rightarrow> nat \<Rightarrow> (string \<times> string) list \<Rightarrow> Order list \<Rightarrow> response \<times> Order list" where
  "place_order f table_no form rows =
     (case place_order_body f table_no form (session_begin rows) of
        (page, s) \<Rightarrow> (page, table s))"

definition kitchen :: "Order list \<Rightarrow> response \<times> Order list" where
  "kitchen rows =
     (let s = session_begin rows;
          found = query_all s;
          orders_list = map (\<lambda>order. dict (order_iter order)) found
      in (Template ''kitchen.html'' [(''orders'', PyList (map PyDict orders_list))], table s))"

text \<open>
  The body of \<open>delete_order\<close>. \<open>get_or_404\<close> stands before the \<open>try\<close>: its abort and any
  exception of its SELECT leave the handler.
\<close>

definition delete_order_body :: "fault \<Rightarrow> nat \<Rightarrow> session \<Rightarrow> response \<times> session" where
  "delete_order_body f i s0 =
     (case query_get s0 i of
        Inl e \<Rightarrow> (Unhandled e, s0)
      | Inr None \<Rightarrow> (Abort 404, s0)
      | Inr (Some order) \<Rightarrow>
          (case session_commit f (session_delete order s0) of
             (Some e, s) \<Rightarrow> (ErrorBody ''Error deleting order: '' e 500, session_rollback s)
           | (None, s) \<Rightarrow> (Redirect (url_for ''kitchen''), s)))"

definition delete_order :: "fault \<Rightarrow> nat \<Rightarrow> Order list \<Rightarrow> response \<times> Order list" where
  "delete_order f i rows =
     (case delete_order_body f i (session_begin rows) of
        (page, s) \<Rightarrow> (page, table s))"

text \<open>
  The tables the program can reach: \<open>db.create_all()\<close> makes the table, empty, and every
  request runs one handler (\<open>main_menu\<close> does not touch the table).
\<close>

inductive reachable :: "Order list \<Rightarrow> bool" where
  created: "reachable []"
| placed: "reachable rows \<Longrightarrow> reachable (snd (place_order f table_no form rows))"
| listed: "reachable rows \<Longrightarrow> reachable (snd (kitchen rows))"
| deleted: "reachable rows \<Longrightarrow> reachable (snd (delete_order f i rows))"

subsection \<open>Sample data\<close>

abbreviation sample_form :: "(string \<times> string) list" where
  "sample_form \<equiv> [(''customer_name'', ''Alice''), (''order_summary'', ''2x burger'')]"

abbreviation sample_row :: "nat \<Rightarrow> Order" where
  "sample_row n \<equiv> \<lparr>order_id = Some n, customer_name = Some ''Alice'', table_number = 4,
                     orders = Some ''2x burger''\<rparr>"

section \<open>What the handlers compute\<close>

lemma mem_row_ids: "i \<in> set (row_ids rows) \<longleftrightarrow> Some i \<in> set (map order_id rows)"
  by (induction rows) (auto simp: row_ids_def List.map_filter_simps split: option.splits)

lemma next_rowid_fresh: "next_rowid rows \<notin> set (row_ids rows)"
proof
  assume a: "next_rowid rows \<in> set (row_ids rows)"
  then have ne: "row_ids rows \<noteq> []" by auto
  from a have "next_rowid rows \<le> Max (set (row_ids rows))" by simp
  with ne show False by (simp add: next_rowid_def)
qed

lemma next_rowid_not_stored: "Some (next_rowid rows) \<notin> set (map order_id rows)"
  using next_rowid_fresh [of rows] by (simp add: mem_row_ids)

lemma small_fits: "\<not> too_large 4" "\<not> too_large 1" "\<not> too_large (Suc 0)"
  "\<not> too_large 999" "too_large 9223372036854775808"
  by (simp_all add: too_large_def sqlite_max_def)

lemma table_session_begin: "table (session_begin rows) = rows"
  by (simp add: session_begin_def)

lemma place_order_body_unfold:
  "place_order_body f table_no form (session_begin rows) =
     (case f of
        WriteFault e \<Rightarrow> (ErrorBody ''Error placing order: '' e 500, session_begin rows)
      | _ \<Rightarrow>
        if too_large table_no
        then (ErrorBody ''Error placing order: '' OverflowError 500, session_begin rows)
        else
        (case form_get form ''customer_name'' of
           None \<Rightarrow> (ErrorBody ''Error placing order: '' (IntegrityError (NotNull ''customer_name'')) 500,
                    session_begin rows)
         | Some c \<Rightarrow>
           (case form_get form ''order_summary'' of
              None \<Rightarrow> (ErrorBody ''Error placing order: '' (IntegrityError (NotNull ''orders'')) 500,
                       session_begin rows)
            | Some d \<Rightarrow>
              (case f of
                 CommitFault e \<Rightarrow> (ErrorBody ''Error placing order: '' e 500, session_begin rows)
               | _ \<Rightarrow>
                 (Template ''order_summary.html''
                    [(''customer_name'', PyStr c), (''table_number'', PyInt table_no),
                     (''order_summary'', PyStr d)],
                  session_begin
                    (rows @ [\<lparr>order_id = Some (next_rowid rows), customer_name = Some c,
                              table_number = table_no, orders = Some d\<rparr>]))))))"
  by (simp add: place_order_body_def order_of_request_def session_commit_def session_flush_def
      session_add_def session_begin_def session_rollback_def sql_insert_def opt_str_def
      split: fault.splits option.splits)

lemma place_order_unfold:
  "place_order f table_no form rows =
     (case f of
        WriteFault e \<Rightarrow> (ErrorBody ''Error placing order: '' e 500, rows)
      | _ \<Rightarrow>
        if too_large table_no
        then (ErrorBody ''Error placing order: '' OverflowError 500, rows)
        else
        (case form_get form ''customer_name'' of
           None \<Rightarrow> (ErrorBody ''Error placing order: '' (IntegrityError (NotNull ''customer_name'')) 500, rows)
         | Some c \<Rightarrow>
           (case form_get form ''order_summary'' of
              None \<Rightarrow> (ErrorBody ''Error placing order: '' (IntegrityError (NotNull ''orders'')) 500, rows)
            | Some d \<Rightarrow>
              (case f of
                 CommitFault e \<Rightarrow> (ErrorBody ''Error placing order: '' e 500, rows)
               | _ \<Rightarrow>
                 (Template ''order_summary.html''
                    [(''customer_name'', PyStr c), (''table_number'', PyInt table_no),
                     (''order_summary'', PyStr d)],
                  rows @ [\<lparr>order_id = Some (next_rowid rows), customer_name = Some c,
                            table_number = table_no, orders = Some d\<rparr>])))))"
  by (simp add: place_order_def place_order_body_unfold table_session_begin
      split: fault.splits option.splits)

lemma delete_order_body_unfold:
  "delete_order_body f i (session_begin rows) =
     (if too_large i then (Unhandled OverflowError, session_begin rows)
      else if Some i \<in> set (map order_id rows)
      then (case f of
              NoFault \<Rightarrow> (Redirect ''/kitchen/'',
                          session_begin (filter (\<lambda>r. order_id r \<noteq> Some i) rows))
            | WriteFault e \<Rightarrow> (ErrorBody ''Error deleting order: '' e 500, session_begin rows)
            | CommitFault e \<Rightarrow> (ErrorBody ''Error deleting order: '' e 500, session_begin rows))
      else (Abort 404, session_begin rows))"
proof (cases "too_large i")
  case True
  then show ?thesis by (simp add: delete_order_body_def query_get_def)
next
  case fits: False
  show ?thesis
  proof (cases "find (\<lambda>r. order_id r = Some i) rows")
    case None
    then have "Some i \<notin> set (map order_id rows)" by (auto simp: find_None_iff)
    with None fits show ?thesis
      by (simp add: delete_order_body_def query_get_def session_begin_def)
  next
    case (Some order)
    then have "order \<in> set rows" "order_id order = Some i"
      by (auto simp: find_Some_iff)
    then have "Some i \<in> set (map order_id rows)" by force
    with Some fits \<open>order_id order = Some i\<close> show ?thesis
      by (simp add: delete_order_body_def query_get_def session_begin_def session_commit_def
          session_flush_def session_delete_def session_rollback_def sql_delete_def url_for_def
          split: fault.splits)
  qed
qed

lemma delete_order_unfold:
  "delete_order f i rows =
     (if too_large i then (Unhandled OverflowError, rows)
      else if Some i \<in> set (map order_id rows)
      then (case f of
              NoFault \<Rightarrow> (Redirect ''/kitchen/'', filter (\<lambda>r. order_id r \<noteq> Some i) rows)
            | WriteFault e \<Rightarrow> (ErrorBody ''Error deleting order: '' e 500, rows)
            | CommitFault e \<Rightarrow> (ErrorBody ''Error deleting order: '' e 500, rows))
      else (Abort 404, rows))"
  by (simp add: delete_order_def delete_order_body_unfold table_session_begin
      split: fault.splits)

lemma kitchen_unfold:
  "kitchen rows =
     (Template ''kitchen.html'' [(''orders'', PyList (map (\<lambda>order. PyDict (dict (order_iter order))) rows))], rows)"
  by (simp add: kitchen_def session_begin_def query_all_def Let_def comp_def)

lemma dict_order_iter:
  "dict (order_iter order) =
     [(''id'', opt_int (order_id order)),
      (''customer_name'', opt_str (customer_name order)),
      (''table_number'', PyInt (table_number order)),
      (''orders'', opt_str (orders order))]"
  by (simp add: dict_def order_iter_def)

lemma next_rowid_Nil: "next_rowid [] = 1"
  by (simp add: next_rowid_def row_ids_def List.map_filter_simps)

lemma row_ids_sample1: "row_ids [sample_row n] = [n]"
  by (simp add: row_ids_def List.map_filter_simps)

lemma next_rowid_sample1: "next_rowid [sample_row n] = n + 1"
  by (simp add: next_rowid_def row_ids_sample1)

lemma place_order_status:
  "status_code (fst (place_order f table_no form rows)) = 200 \<longleftrightarrow>
     f = NoFault \<and> \<not> too_large table_no
     \<and> form_get form ''customer_name'' \<noteq> None \<and> form_get form ''order_summary'' \<noteq> None"
  by (simp add: place_order_unfold split: fault.splits option.splits)

lemma place_order_success:
  assumes "status_code (fst (place_order f table_no form rows)) = 200"
  shows "place_order f table_no form rows =
           (Template ''order_summary.html''
              [(''customer_name'', opt_str (form_get form ''customer_name'')),
               (''table_number'', PyInt table_no),
               (''order_summary'', opt_str (form_get form ''order_summary''))],
            rows @ [\<lparr>order_id = Some (next_rowid rows),
                      customer_name = form_get form ''customer_name'',
                      table_number = table_no,
                      orders = form_get form ''order_summary''\<rparr>])"
  using assms
  by (simp add: place_order_unfold opt_str_def split: fault.splits option.splits if_splits)

lemma place_order_failure:
  assumes "status_code (fst (place_order f table_no form rows)) \<noteq> 200"
  shows "snd (place_order f table_no form rows) = rows"
  using assms
  by (simp add: place_order_unfold split: fault.splits option.splits if_splits)

text \<open>
  C1. After a create that succeeds, the listing that \<open>kitchen\<close> reads holds exactly one Order
  that has the submitted customer name, table number and order text and an id that no Order
  had before the create. (A create that succeeds was given both text fields.)
\<close>

theorem create_then_list_all:
  assumes "place_order f table_no form rows = (page, rows')"
    and "status_code page = 200"
  shows "length (filter (\<lambda>r. customer_name r = form_get form ''customer_name''
                            \<and> table_number r = table_no
                            \<and> orders r = form_get form ''order_summary''
                            \<and> order_id r \<noteq> None
                            \<and> order_id r \<notin> set (map order_id rows))
                   (query_all (session_begin rows'))) = 1
         \<and> form_get form ''customer_name'' \<noteq> None
         \<and> form_get form ''order_summary'' \<noteq> None"
proof -
  from assms have ok: "status_code (fst (place_order f table_no form rows)) = 200" by simp
  from place_order_success [OF ok] assms(1)
  have rows': "rows' = rows @ [\<lparr>order_id = Some (next_rowid rows),
                      customer_name = form_get form ''customer_name'',
                      table_number = table_no,
                      orders = form_get form ''order_summary''\<rparr>]" by simp
  have old: "filter (\<lambda>r. customer_name r = form_get form ''customer_name''
                            \<and> table_number r = table_no
                            \<and> orders r = form_get form ''order_summary''
                            \<and> order_id r \<noteq> None
                            \<and> order_id r \<notin> set (map order_id rows)) rows = []"
    by (auto simp: filter_empty_conv)
  from ok have "form_get form ''customer_name'' \<noteq> None \<and> form_get form ''order_summary'' \<noteq> None"
    by (simp add: place_order_status)
  with old rows' next_rowid_not_stored [of rows] show ?thesis
    by (simp add: query_all_def session_begin_def)
qed

theorem create_then_list_all_witness:
  "place_order NoFault 4 sample_form [sample_row 1] = 
     (Template ''order_summary.html''
              [(''customer_name'', PyStr ''Alice''),
               (''table_number'', PyInt 4),
               (''order_summary'', PyStr ''2x burger'')], [sample_row 1, sample_row 2])
   \<and> length (filter (\<lambda>r. customer_name r = Some ''Alice'' \<and> table_number r = 4
                          \<and> orders r = Some ''2x burger'' \<and> order_id r \<noteq> None
                          \<and> order_id r \<notin> set (map order_id [sample_row 1]))
                 (query_all (session_begin [sample_row 1, sample_row 2]))) = 1"
proof -
  have run: "place_order NoFault 4 sample_form [sample_row 1] = 
     (Template ''order_summary.html''
              [(''customer_name'', PyStr ''Alice''),
               (''table_number'', PyInt 4),
               (''order_summary'', PyStr ''2x burger'')], [sample_row 1, sample_row 2])"
    by (simp add: place_order_unfold form_get_def next_rowid_sample1 small_fits)
  from create_then_list_all [OF run] run show ?thesis
    by (simp add: form_get_def)
qed

text \<open>
  C2, as the code has it. Deleting an id that no stored Order has and that the storage can
  hold (at most \<open>2^63 - 1\<close>) aborts with 404 and leaves the table as it was, whatever the
  state of the storage.
\<close>

theorem delete_missing_id:
  assumes "Some i \<notin> set (map order_id rows)" and "i \<le> sqlite_max"
  shows "delete_order f i rows = (Abort 404, rows) \<and> status_code (fst (delete_order f i rows)) = 404"
  using assms by (simp add: delete_order_unfold too_large_def)

theorem delete_missing_id_witness:
  "Some 999 \<notin> set (map order_id [sample_row 1]) \<and> 999 \<le> sqlite_max
   \<and> delete_order NoFault 999 [sample_row 1] = (Abort 404, [sample_row 1])"
  using delete_missing_id [of 999 "[sample_row 1]" NoFault] by (simp add: sqlite_max_def)

text \<open>
  C2 as stated promises 404 for every id that is not stored. The id \<open>2^63\<close> is matched by
  the route and is not stored, but the SELECT of \<open>get_or_404\<close>, which stands before the
  \<open>try\<close>, refuses it: the exception leaves the handler and the answer is a 500. The table
  is unchanged.
\<close>

theorem delete_missing_id_counterexample:
  "Some 9223372036854775808 \<notin> set (map order_id [sample_row 1])
   \<and> delete_order NoFault 9223372036854775808 [sample_row 1]
       = (Unhandled OverflowError, [sample_row 1])
   \<and> status_code (fst (delete_order NoFault 9223372036854775808 [sample_row 1])) = 500"
  by (simp add: delete_order_unfold small_fits)

text \<open>
  C3. Deleting an id that a stored Order has (an id the storage holds is at most
  \<open>2^63 - 1\<close>), on a storage that does not fail, redirects to the kitchen view (302);
  afterwards the listing has no Order with that id and still has every Order with another
  id.
\<close>

theorem delete_existing_id:
  assumes "Some i \<in> set (map order_id rows)" and "i \<le> sqlite_max"
  shows "delete_order NoFault i rows = (Redirect ''/kitchen/'', filter (\<lambda>r. order_id r \<noteq> Some i) rows)
         \<and> status_code (fst (delete_order NoFault i rows)) = 302
         \<and> Some i \<notin> set (map order_id (query_all (session_begin (snd (delete_order NoFault i rows)))))
         \<and> (\<forall>r \<in> set rows. order_id r \<noteq> Some i \<longrightarrow>
               r \<in> set (query_all (session_begin (snd (delete_order NoFault i rows)))))"
  using assms by (auto simp: delete_order_unfold query_all_def session_begin_def too_large_def)

theorem delete_existing_id_witness:
  "Some 1 \<in> set (map order_id [sample_row 1, sample_row 2]) \<and> 1 \<le> sqlite_max
   \<and> delete_order NoFault 1 [sample_row 1, sample_row 2] = (Redirect ''/kitchen/'', [sample_row 2])
   \<and> query_all (session_begin (snd (delete_order NoFault 1 [sample_row 1, sample_row 2]))) = [sample_row 2]"
  using delete_existing_id [of 1 "[sample_row 1, sample_row 2]"]
  by (simp add: query_all_def session_begin_def sqlite_max_def)

lemma commit_fault_row_in_transaction:
  assumes "form_get form ''customer_name'' = Some c" and "form_get form ''order_summary'' = Some d"
    and "\<not> too_large table_no"
  shows "session_commit (CommitFault e) (session_add (order_of_request table_no form) (session_begin rows))
         = (Some e, \<lparr>table = rows,
                     txn = rows @ [\<lparr>order_id = Some (next_rowid rows), customer_name = Some c,
                                     table_number = table_no, orders = Some d\<rparr>],
                     pending_new = [], pending_deleted = []\<rparr>)"
  using assms
  by (simp add: session_commit_def session_flush_def session_add_def session_begin_def
      order_of_request_def sql_insert_def)

lemma rollback_after_commit_add:
  "fst (session_commit f (session_add obj (session_begin rows))) = Some e \<Longrightarrow>
   session_rollback (snd (session_commit f (session_add obj (session_begin rows)))) = session_begin rows"
  by (auto simp: session_commit_def session_flush_def session_add_def session_begin_def
      session_rollback_def split: fault.splits prod.splits option.splits sum.splits)

lemma rollback_after_commit_delete:
  "fst (session_commit f (session_delete obj (session_begin rows))) = Some e \<Longrightarrow>
   session_rollback (snd (session_commit f (session_delete obj (session_begin rows)))) = session_begin rows"
  by (auto simp: session_commit_def session_flush_def session_delete_def session_begin_def
      session_rollback_def split: fault.splits prod.splits option.splits)

text \<open>
  C4. When \<open>commit\<close> raises inside \<open>place_order\<close> or inside \<open>delete_order\<close> (after the
  row was found), the handler returns with the session rolled back to where the request
  started: the transaction holds the committed table again and nothing is pending. The
  committed table is the one before the request, and the response is the handler's prefix
  followed by \<open>str\<close> of the exception, with status 500.
\<close>

theorem failed_commit_is_rolled_back:
  "(fst (session_commit f (session_add (order_of_request table_no form) (session_begin rows))) = Some e \<longrightarrow>
      place_order_body f table_no form (session_begin rows)
        = (ErrorBody ''Error placing order: '' e 500, session_begin rows)
      \<and> place_order f table_no form rows = (ErrorBody ''Error placing order: '' e 500, rows))
   \<and> (query_get (session_begin rows) i = Inr (Some order)
      \<and> fst (session_commit f (session_delete order (session_begin rows))) = Some e' \<longrightarrow>
        delete_order_body f i (session_begin rows)
          = (ErrorBody ''Error deleting order: '' e' 500, session_begin rows)
        \<and> delete_order f i rows = (ErrorBody ''Error deleting order: '' e' 500, rows))"
proof (intro conjI impI)
  assume a: "fst (session_commit f (session_add (order_of_request table_no form) (session_begin rows))) = Some e"
  then have "session_rollback (snd (session_commit f (session_add (order_of_request table_no form) (session_begin rows))))
        = session_begin rows"
    by (rule rollback_after_commit_add)
  with a show body: "place_order_body f table_no form (session_begin rows)
        = (ErrorBody ''Error placing order: '' e 500, session_begin rows)"
    by (cases "session_commit f (session_add (order_of_request table_no form) (session_begin rows))")
      (simp add: place_order_body_def Let_def)
  then show "place_order f table_no form rows = (ErrorBody ''Error placing order: '' e 500, rows)"
    by (simp add: place_order_def table_session_begin)
next
  assume b: "query_get (session_begin rows) i = Inr (Some order)
      \<and> fst (session_commit f (session_delete order (session_begin rows))) = Some e'"
  then have "session_rollback (snd (session_commit f (session_delete order (session_begin rows))))
          = session_begin rows"
    by (simp add: rollback_after_commit_delete)
  with b show body: "delete_order_body f i (session_begin rows)
          = (ErrorBody ''Error deleting order: '' e' 500, session_begin rows)"
    by (cases "session_commit f (session_delete order (session_begin rows))")
      (simp add: delete_order_body_def)
  then show "delete_order f i rows = (ErrorBody ''Error deleting order: '' e' 500, rows)"
    by (simp add: delete_order_def table_session_begin)
qed

theorem failed_commit_is_rolled_back_witness:
  "fst (session_commit (CommitFault (OperationalError ''disk I/O error''))
          (session_add (order_of_request 4 sample_form) (session_begin [sample_row 1])))
     = Some (OperationalError ''disk I/O error'')
   \<and> txn (snd (session_commit (CommitFault (OperationalError ''disk I/O error''))
          (session_add (order_of_request 4 sample_form) (session_begin [sample_row 1]))))
     = [sample_row 1, sample_row 2]
   \<and> place_order_body (CommitFault (OperationalError ''disk I/O error'')) 4 sample_form
        (session_begin [sample_row 1])
     = (ErrorBody ''Error placing order: '' (OperationalError ''disk I/O error'') 500,
        \<lparr>table = [sample_row 1], txn = [sample_row 1], pending_new = [], pending_deleted = []\<rparr>)
   \<and> query_get (session_begin [sample_row 1]) 1 = Inr (Some (sample_row 1))
   \<and> fst (session_commit (CommitFault (OperationalError ''disk I/O error''))
          (session_delete (sample_row 1) (session_begin [sample_row 1])))
     = Some (OperationalError ''disk I/O error'')
   \<and> txn (snd (session_commit (CommitFault (OperationalError ''disk I/O error''))
          (session_delete (sample_row 1) (session_begin [sample_row 1])))) = []
   \<and> delete_order_body (CommitFault (OperationalError ''disk I/O error'')) 1
        (session_begin [sample_row 1])
     = (ErrorBody ''Error deleting order: '' (OperationalError ''disk I/O error'') 500,
        \<lparr>table = [sample_row 1], txn = [sample_row 1], pending_new = [], pending_deleted = []\<rparr>)
   \<and> delete_order (CommitFault (OperationalError ''disk I/O error'')) 1 [sample_row 1]
     = (ErrorBody ''Error deleting order: '' (OperationalError ''disk I/O error'') 500,
        [sample_row 1])"
  using failed_commit_is_rolled_back [of "CommitFault (OperationalError ''disk I/O error'')" 4
      sample_form "[sample_row 1]" "OperationalError ''disk I/O error''" 1 "sample_row 1"
      "OperationalError ''disk I/O error''"]
  by (simp add: session_commit_def session_flush_def session_add_def session_delete_def
      session_begin_def order_of_request_def sql_insert_def sql_delete_def form_get_def
      query_get_def next_rowid_sample1 small_fits)

lemma reachable_rows_wf:
  "reachable rows \<Longrightarrow>
     (\<forall>r \<in> set rows. order_id r \<noteq> None \<and> customer_name r \<noteq> None \<and> orders r \<noteq> None)
     \<and> distinct (map order_id rows)"
proof (induction rule: reachable.induct)
  case created
  show ?case by simp
next
  case (placed rows f table_no form)
  show ?case
  proof (cases "status_code (fst (place_order f table_no form rows)) = 200")
    case True
    then have "form_get form ''customer_name'' \<noteq> None \<and> form_get form ''order_summary'' \<noteq> None"
      by (simp add: place_order_status)
    with placed.IH next_rowid_not_stored [of rows] show ?thesis
      by (simp add: place_order_success [OF True])
  next
    case False
    with placed.IH show ?thesis by (simp add: place_order_failure)
  qed
next
  case (listed rows)
  then show ?case by (simp add: kitchen_unfold)
next
  case (deleted rows f i)
  then show ?case
    by (auto simp: delete_order_unfold distinct_map_filter split: fault.splits)
qed

text \<open>
  C5, as the code has it. In every table the program can reach, every stored Order has an
  id, a customer name and an order text (the table number is an integer by its type), no two
  stored Orders share an id, and a create that succeeds appends one Order whose id, one more
  than the largest stored id, is the id of no Order stored at that moment.
\<close>

theorem reachable_store_invariant:
  assumes "reachable rows"
  shows "(\<forall>r \<in> set rows. order_id r \<noteq> None \<and> customer_name r \<noteq> None \<and> orders r \<noteq> None)
         \<and> distinct (map order_id rows)
         \<and> (\<forall>f table_no form.
               status_code (fst (place_order f table_no form rows)) = 200 \<longrightarrow>
                 (\<exists>r. snd (place_order f table_no form rows) = rows @ [r]
                      \<and> order_id r = Some (next_rowid rows)
                      \<and> order_id r \<notin> set (map order_id rows)))"
proof -
  have "\<exists>r. snd (place_order f table_no form rows) = rows @ [r]
            \<and> order_id r = Some (next_rowid rows) \<and> order_id r \<notin> set (map order_id rows)"
    if ok: "status_code (fst (place_order f table_no form rows)) = 200" for f table_no form
    using next_rowid_not_stored [of rows] by (simp add: place_order_success [OF ok])
  with reachable_rows_wf [OF assms] show ?thesis by blast
qed

lemma reachable_sample1: "reachable [sample_row 1]"
proof -
  have "reachable (snd (place_order NoFault 4 sample_form []))"
    by (rule reachable.placed) (rule reachable.created)
  then show ?thesis
    by (simp add: place_order_unfold form_get_def next_rowid_Nil small_fits)
qed

theorem reachable_store_invariant_witness:
  "reachable [sample_row 1]
   \<and> order_id (sample_row 1) \<noteq> None \<and> customer_name (sample_row 1) \<noteq> None
   \<and> orders (sample_row 1) \<noteq> None
   \<and> distinct (map order_id [sample_row 1])
   \<and> status_code (fst (place_order NoFault 4 sample_form [sample_row 1])) = 200
   \<and> snd (place_order NoFault 4 sample_form [sample_row 1]) = [sample_row 1, sample_row 2]
   \<and> Some 2 \<notin> set (map order_id [sample_row 1])"
  using reachable_store_invariant [OF reachable_sample1] reachable_sample1
  by (simp add: place_order_unfold form_get_def next_rowid_sample1 small_fits)

text \<open>
  C5 as stated says that an id is never handed out twice. Create, delete the Order, create
  again: both creates hand out id 1.
\<close>

theorem id_reuse_counterexample:
  "reachable (snd (place_order NoFault 4 sample_form
       (snd (delete_order NoFault 1 (snd (place_order NoFault 4 sample_form []))))))
   \<and> map order_id (snd (place_order NoFault 4 sample_form [])) = [Some 1]
   \<and> snd (delete_order NoFault 1 (snd (place_order NoFault 4 sample_form []))) = []
   \<and> map order_id (snd (place_order NoFault 4 sample_form
       (snd (delete_order NoFault 1 (snd (place_order NoFault 4 sample_form [])))))) = [Some 1]"
proof -
  have "reachable (snd (place_order NoFault 4 sample_form
       (snd (delete_order NoFault 1 (snd (place_order NoFault 4 sample_form []))))))"
    by (intro reachable.placed reachable.deleted reachable.created)
  moreover have p: "snd (place_order NoFault 4 sample_form []) = [sample_row 1]"
    by (simp add: place_order_unfold form_get_def next_rowid_Nil small_fits)
  moreover have "snd (delete_order NoFault 1 [sample_row 1]) = []"
    by (simp add: delete_order_unfold small_fits)
  ultimately show ?thesis by simp
qed




text \<open>
  C7, as the code has it. When the form has no \<open>customer_name\<close> or no \<open>order_summary\<close>, the
  object is built with \<open>None\<close> in that field, \<open>commit\<close> raises, the response is
  \<open>"Error placing order: "\<close> followed by \<open>str\<close> of the exception with status 500 (the same
  shape as any other storage error), and the table is unchanged. Unless the storage breaks
  before the INSERT, the exception is the NOT NULL failure of the first missing column when
  the table number is at most \<open>2^63 - 1\<close>, and the driver's refusal of the table number
  when it is larger.
\<close>

theorem missing_field_fails_at_storage:
  assumes "form_get form ''customer_name'' = None \<or> form_get form ''order_summary'' = None"
  shows "customer_name (order_of_request table_no form) = form_get form ''customer_name''
         \<and> orders (order_of_request table_no form) = form_get form ''order_summary''
         \<and> (\<exists>e. fst (session_commit f (session_add (order_of_request table_no form)
                                              (session_begin rows))) = Some e
                \<and> place_order f table_no form rows
                    = (ErrorBody ''Error placing order: '' e 500, rows)
                \<and> ((\<forall>x. f \<noteq> WriteFault x) \<and> table_no \<le> sqlite_max \<longrightarrow>
                      e = IntegrityError (NotNull (if form_get form ''customer_name'' = None
                                                   then ''customer_name'' else ''orders'')))
                \<and> ((\<forall>x. f \<noteq> WriteFault x) \<and> sqlite_max < table_no \<longrightarrow>
                      e = OverflowError))"
  using assms
  by (auto simp: place_order_unfold session_commit_def session_flush_def session_add_def
      session_begin_def order_of_request_def sql_insert_def too_large_def
      split: fault.splits option.splits)

theorem missing_field_fails_at_storage_witness:
  "form_get [(''order_summary'', ''2x burger'')] ''customer_name'' = None
   \<and> 4 \<le> sqlite_max
   \<and> place_order NoFault 4 [(''order_summary'', ''2x burger'')] [sample_row 1]
       = (ErrorBody ''Error placing order: '' (IntegrityError (NotNull ''customer_name'')) 500,
          [sample_row 1])
   \<and> sqlite_max < 9223372036854775808
   \<and> place_order (CommitFault (OperationalError ''disk I/O error'')) 9223372036854775808
        [(''order_summary'', ''2x burger'')] [sample_row 1]
       = (ErrorBody ''Error placing order: '' OverflowError 500, [sample_row 1])"
  using missing_field_fails_at_storage [where form = "[(''order_summary'', ''2x burger'')]"
      and f = NoFault and table_no = 4 and rows = "[sample_row 1]"]
    missing_field_fails_at_storage [where form = "[(''order_summary'', ''2x burger'')]"
      and f = "CommitFault (OperationalError ''disk I/O error'')"
      and table_no = 9223372036854775808 and rows = "[sample_row 1]"]
  by (auto simp: form_get_def sqlite_max_def)

text \<open>
  C7 as stated has the NOT NULL constraint violated whenever a field is absent. With the
  customer name absent and table number \<open>2^63\<close>, the INSERT is refused when its parameters
  are bound, before any constraint is checked: the exception that is answered is the
  driver's, not the constraint's.
\<close>

theorem missing_field_counterexample:
  "form_get [(''order_summary'', ''2x burger'')] ''customer_name'' = None
   \<and> fst (session_commit NoFault
            (session_add (order_of_request 9223372036854775808 [(''order_summary'', ''2x burger'')])
               (session_begin [sample_row 1]))) = Some OverflowError
   \<and> place_order NoFault 9223372036854775808 [(''order_summary'', ''2x burger'')] [sample_row 1]
       = (ErrorBody ''Error placing order: '' OverflowError 500, [sample_row 1])
   \<and> OverflowError \<noteq> IntegrityError (NotNull ''customer_name'')"
  by (simp add: place_order_unfold small_fits form_get_def session_commit_def session_flush_def
      session_add_def session_begin_def order_of_request_def sql_insert_def)

text \<open>
  C8. \<open>kitchen\<close> leaves the table as it was and answers 200 on every table; on the empty
  table it renders the empty list.
\<close>

theorem kitchen_read_only:
  "snd (kitchen rows) = rows
   \<and> status_code (fst (kitchen rows)) = 200
   \<and> kitchen [] = (Template ''kitchen.html'' [(''orders'', PyList [])], [])"
  by (simp add: kitchen_unfold)

text \<open>
  C9. \<open>dict(order)\<close> has the four keys \<open>id\<close>, \<open>customer_name\<close>, \<open>table_number\<close>,
  \<open>orders\<close>, in that order, each with the attribute of that name, and nothing else; the
  kitchen view is rendered from one such dict for each stored Order, in table order.
\<close>

theorem dict_of_order_fixed_shape:
  "dict (order_iter order) =
     [(''id'', opt_int (order_id order)),
      (''customer_name'', opt_str (customer_name order)),
      (''table_number'', PyInt (table_number order)),
      (''orders'', opt_str (orders order))]
   \<and> map fst (dict (order_iter order)) = [''id'', ''customer_name'', ''table_number'', ''orders'']
   \<and> fst (kitchen rows) =
       Template ''kitchen.html''
         [(''orders'', PyList (map (\<lambda>r. PyDict [(''id'', opt_int (order_id r)),
                                                  (''customer_name'', opt_str (customer_name r)),
                                                  (''table_number'', PyInt (table_number r)),
                                                  (''orders'', opt_str (orders r))]) rows))]"
  by (simp add: kitchen_unfold dict_order_iter)

text \<open>
  C10. After a create that succeeds, the order-summary page is rendered from the customer
  name, the table number and the order text of the row that was appended to the table, and
  that row's table number is the path parameter.
\<close>

theorem summary_echoes_persisted_row:
  assumes "status_code (fst (place_order f table_no form rows)) = 200"
  shows "\<exists>r. snd (place_order f table_no form rows) = rows @ [r]
             \<and> table_number r = table_no
             \<and> fst (place_order f table_no form rows) =
                 Template ''order_summary.html''
                   [(''customer_name'', opt_str (customer_name r)),
                    (''table_number'', PyInt (table_number r)),
                    (''order_summary'', opt_str (orders r))]"
  by (simp add: place_order_success [OF assms])

theorem summary_echoes_persisted_row_witness:
  "status_code (fst (place_order NoFault 4 sample_form [sample_row 1])) = 200
   \<and> snd (place_order NoFault 4 sample_form [sample_row 1]) = [sample_row 1, sample_row 2]
   \<and> fst (place_order NoFault 4 sample_form [sample_row 1]) =
        Template ''order_summary.html''
          [(''customer_name'', PyStr ''Alice''), (''table_number'', PyInt 4),
           (''order_summary'', PyStr ''2x burger'')]"
proof -
  have ok: "status_code (fst (place_order NoFault 4 sample_form [sample_row 1])) = 200"
    by (simp add: place_order_status form_get_def small_fits)
  from summary_echoes_persisted_row [OF ok] ok show ?thesis
    by (auto simp: place_order_unfold form_get_def next_rowid_sample1 small_fits)
qed

end
